theory Spec2Isabelle
  imports Main "HOL-Library.Word"
begin

unbundle bit_operations_syntax

section \<open>picoc.h: the configurable options\<close>

text \<open>
  The header is the whole of the sources: the macros, the enumerations, the structures and
  the module-level variables of the interpreter. Each macro that expands to an integer
  literal is a constant of type \<open>int\<close>, with the literal of the header.
\<close>

definition HEAP_SIZE :: int where
  "HEAP_SIZE = 2048"

definition GLOBAL_TABLE_SIZE :: int where
  "GLOBAL_TABLE_SIZE = 397"

definition FUNCTION_STORE_MAX :: int where
  "FUNCTION_STORE_MAX = 200"

definition STACK_MAX :: int where
  "STACK_MAX = 10"

definition PARAMETER_MAX :: int where
  "PARAMETER_MAX = 10"

definition LOCAL_TABLE_SIZE :: int where
  "LOCAL_TABLE_SIZE = 11"

definition LARGE_INT_POWER_OF_TEN :: int where
  "LARGE_INT_POWER_OF_TEN = 1000000000"

text \<open>
  The host's \<open>int\<close> and \<open>unsigned int\<close> are 32 bits wide, the width the comment on
  \<open>LARGE_INT_POWER_OF_TEN\<close> supposes; \<open>short\<close> is 16 bits and \<open>char\<close> 8. \<open>INT_MAX\<close>
  is the host's (limits.h), the largest value of a two's complement \<open>int\<close>.
\<close>

type_synonym c_int = "32 word"
type_synonym c_short = "16 word"
type_synonym c_char = "8 word"

text \<open>
  An \<open>int\<close> is read in two's complement. \<open>unsigned int\<close> is a type of its own: the same
  32 bits, read as a natural number. The conversion of an \<open>int\<close> to \<open>unsigned int\<close> keeps
  the bits, and \<open>+\<close> and \<open>*\<close> on \<open>unsigned int\<close> wrap around.
\<close>

definition int_value :: "c_int \<Rightarrow> int" where
  "int_value k = sint k"

datatype c_uint = UnsignedInt (bits: "32 word")

definition uint_value :: "c_uint \<Rightarrow> int" where
  "uint_value u = uint (bits u)"

definition UINT_MAX :: int where
  "UINT_MAX = 2 ^ LENGTH(32) - 1"

definition uint_of_int :: "c_int \<Rightarrow> c_uint" where
  "uint_of_int k = UnsignedInt k"

definition uint_plus :: "c_uint \<Rightarrow> c_uint \<Rightarrow> c_uint" where
  "uint_plus a b = UnsignedInt (bits a + bits b)"

definition uint_times :: "c_uint \<Rightarrow> c_uint \<Rightarrow> c_uint" where
  "uint_times a b = UnsignedInt (bits a * bits b)"

definition INT_MAX :: int where
  "INT_MAX = 2 ^ (LENGTH(32) - 1) - 1"

text \<open>
  \<open>sizeof(int)\<close>, in bytes of 8 bits. In the macros it is a value of the host's
  \<open>size_t\<close>, an unsigned type whose width \<open>'a\<close> is left open (32 bits or 64 bits on
  the usual hosts); the other operand of the arithmetic is converted to that type.
\<close>

definition sizeof_int :: nat where
  "sizeof_int = LENGTH(32) div 8"

definition ARCH_ALIGN_WORDSIZE :: "'a::len word" where
  "ARCH_ALIGN_WORDSIZE = of_nat sizeof_int"

text \<open>
  \<^verbatim>\<open>#define MEM_ALIGN(x) (((x) + ARCH_ALIGN_WORDSIZE - 1) & ~(ARCH_ALIGN_WORDSIZE-1))\<close>
\<close>

definition MEM_ALIGN :: "'a::len word \<Rightarrow> 'a word" where
  "MEM_ALIGN x = ((x + ARCH_ALIGN_WORDSIZE - 1) AND NOT (ARCH_ALIGN_WORDSIZE - 1))"

section \<open>Lexical tokens\<close>

text \<open>\<open>enum LexToken\<close>, in the order of the declaration.\<close>

datatype LexToken =
    TokenNone
  | TokenEOF
  | TokenIdentifier
  | TokenIntegerConstant
  | TokenFPConstant
  | TokenStringConstant
  | TokenCharacterConstant
  | TokenType
  | TokenOpenBracket
  | TokenCloseBracket
  | TokenAssign
  | TokenPlus
  | TokenMinus
  | TokenAsterisk
  | TokenSlash
  | TokenEquality
  | TokenLessThan
  | TokenGreaterThan
  | TokenLessEqual
  | TokenGreaterEqual
  | TokenSemicolon
  | TokenArrow
  | TokenAmpersand
  | TokenLeftBrace
  | TokenRightBrace
  | TokenLeftAngleBracket
  | TokenRightAngleBracket
  | TokenLogicalAnd
  | TokenLogicalOr
  | TokenArithmeticOr
  | TokenArithmeticExor
  | TokenUnaryExor
  | TokenUnaryNot
  | TokenComma
  | TokenDot
  | TokenAddAssign
  | TokenSubtractAssign
  | TokenIncrement
  | TokenDecrement
  | TokenIntType
  | TokenCharType
  | TokenFloatType
  | TokenDoubleType
  | TokenVoidType
  | TokenDo
  | TokenElse
  | TokenFor
  | TokenIf
  | TokenWhile
  | TokenBreak
  | TokenSwitch
  | TokenCase
  | TokenDefault
  | TokenReturn
  | TokenHashDefine
  | TokenHashInclude
  | TokenEndOfLine

text \<open>
  The enumerators, first to last. No enumerator of the declaration has an initialiser, so
  the value of each is its position in this list, from 0.
\<close>

definition LexTokens :: "LexToken list" where
  "LexTokens =
    [TokenNone, TokenEOF, TokenIdentifier, TokenIntegerConstant, TokenFPConstant,
     TokenStringConstant, TokenCharacterConstant, TokenType, TokenOpenBracket,
     TokenCloseBracket, TokenAssign, TokenPlus, TokenMinus, TokenAsterisk, TokenSlash,
     TokenEquality, TokenLessThan, TokenGreaterThan, TokenLessEqual, TokenGreaterEqual,
     TokenSemicolon, TokenArrow, TokenAmpersand, TokenLeftBrace, TokenRightBrace,
     TokenLeftAngleBracket, TokenRightAngleBracket, TokenLogicalAnd, TokenLogicalOr,
     TokenArithmeticOr, TokenArithmeticExor, TokenUnaryExor, TokenUnaryNot, TokenComma,
     TokenDot, TokenAddAssign, TokenSubtractAssign, TokenIncrement, TokenDecrement,
     TokenIntType, TokenCharType, TokenFloatType, TokenDoubleType, TokenVoidType, TokenDo,
     TokenElse, TokenFor, TokenIf, TokenWhile, TokenBreak, TokenSwitch, TokenCase,
     TokenDefault, TokenReturn, TokenHashDefine, TokenHashInclude, TokenEndOfLine]"

text \<open>
  Modelled from the spec: the source text each discriminant stands for. The scanner
  (lex.c) is not among the sources; the text is the one the enumerator is named after,
  with the spec's list of the tokens the scanner recognises (\<open>==\<close>, \<open><=\<close>, \<open>>=\<close>,
  \<open>&&\<close>, \<open>||\<close>, \<open>+=\<close>, \<open>-=\<close>, \<open>++\<close>, \<open>--\<close>, \<open>->\<close>; \<open><\<close> and \<open>>\<close> are
  \<open>LessThan\<close> and \<open>GreaterThan\<close>, so the two angle brackets of the enumeration are the
  brackets \<open>[\<close> and \<open>]\<close> of the array declarator and of indexing). A discriminant that
  stands for a class of lexemes, or for none, has \<open>None\<close>; the end-of-line token stands
  for the newline.
\<close>

fun TokenLexeme :: "LexToken \<Rightarrow> string option" where
  "TokenLexeme TokenNone = None"
| "TokenLexeme TokenEOF = None"
| "TokenLexeme TokenIdentifier = None"
| "TokenLexeme TokenIntegerConstant = None"
| "TokenLexeme TokenFPConstant = None"
| "TokenLexeme TokenStringConstant = None"
| "TokenLexeme TokenCharacterConstant = None"
| "TokenLexeme TokenType = None"
| "TokenLexeme TokenOpenBracket = Some ''(''"
| "TokenLexeme TokenCloseBracket = Some '')''"
| "TokenLexeme TokenAssign = Some ''=''"
| "TokenLexeme TokenPlus = Some ''+''"
| "TokenLexeme TokenMinus = Some ''-''"
| "TokenLexeme TokenAsterisk = Some ''*''"
| "TokenLexeme TokenSlash = Some ''/''"
| "TokenLexeme TokenEquality = Some ''==''"
| "TokenLexeme TokenLessThan = Some ''<''"
| "TokenLexeme TokenGreaterThan = Some ''>''"
| "TokenLexeme TokenLessEqual = Some ''<=''"
| "TokenLexeme TokenGreaterEqual = Some ''>=''"
| "TokenLexeme TokenSemicolon = Some '';''"
| "TokenLexeme TokenArrow = Some ''->''"
| "TokenLexeme TokenAmpersand = Some ''&''"
| "TokenLexeme TokenLeftBrace = Some ''{''"
| "TokenLexeme TokenRightBrace = Some ''}''"
| "TokenLexeme TokenLeftAngleBracket = Some ''[''"
| "TokenLexeme TokenRightAngleBracket = Some '']''"
| "TokenLexeme TokenLogicalAnd = Some ''&&''"
| "TokenLexeme TokenLogicalOr = Some ''||''"
| "TokenLexeme TokenArithmeticOr = Some ''|''"
| "TokenLexeme TokenArithmeticExor = Some ''^''"
| "TokenLexeme TokenUnaryExor = Some ''~''"
| "TokenLexeme TokenUnaryNot = Some ''!''"
| "TokenLexeme TokenComma = Some '',''"
| "TokenLexeme TokenDot = Some ''.''"
| "TokenLexeme TokenAddAssign = Some ''+=''"
| "TokenLexeme TokenSubtractAssign = Some ''-=''"
| "TokenLexeme TokenIncrement = Some ''++''"
| "TokenLexeme TokenDecrement = Some ''--''"
| "TokenLexeme TokenIntType = Some ''int''"
| "TokenLexeme TokenCharType = Some ''char''"
| "TokenLexeme TokenFloatType = Some ''float''"
| "TokenLexeme TokenDoubleType = Some ''double''"
| "TokenLexeme TokenVoidType = Some ''void''"
| "TokenLexeme TokenDo = Some ''do''"
| "TokenLexeme TokenElse = Some ''else''"
| "TokenLexeme TokenFor = Some ''for''"
| "TokenLexeme TokenIf = Some ''if''"
| "TokenLexeme TokenWhile = Some ''while''"
| "TokenLexeme TokenBreak = Some ''break''"
| "TokenLexeme TokenSwitch = Some ''switch''"
| "TokenLexeme TokenCase = Some ''case''"
| "TokenLexeme TokenDefault = Some ''default''"
| "TokenLexeme TokenReturn = Some ''return''"
| "TokenLexeme TokenHashDefine = Some ''#define''"
| "TokenLexeme TokenHashInclude = Some ''#include''"
| "TokenLexeme TokenEndOfLine = Some [CHR 0x0A]"

text \<open>The first discriminant of the enumeration that stands for a lexeme, if there is one.\<close>

definition DiscriminantOf :: "string \<Rightarrow> LexToken option" where
  "DiscriminantOf l = find (\<lambda>t. TokenLexeme t = Some l) LexTokens"

text \<open>
  The elements the token set is said to cover, group by group: the punctuators, a
  compound-assign form for each arithmetic and each bitwise operator, the inequality
  operator, the unary operators \<open>!\<close> and \<open>~\<close>, the bitwise operators, increment and
  decrement, the comparison operators, the keywords, the two preprocessor markers and the
  end of line; then the arithmetic operators, the assignment and the two logical
  connectives of the expression operator table.
\<close>

definition spec_lexemes :: "string list" where
  "spec_lexemes =
    [''('', '')'', ''{'', ''}'', ''['', '']'', '','', '';'', ''.'', ''->'',
     ''+='', ''-='', ''*='', ''/='', ''|='', ''^='', ''&='',
     ''!='',
     ''!'', ''~'',
     ''|'', ''^'', ''&'',
     ''++'', ''--'',
     ''=='', ''<'', ''<='', ''>'', ''>='',
     ''do'', ''else'', ''for'', ''if'', ''while'', ''break'', ''switch'', ''case'',
     ''default'', ''return'',
     ''#define'', ''#include'',
     [CHR 0x0A],
     ''+'', ''-'', ''*'', ''/'', ''='', ''&&'', ''||'']"

text \<open>The elements of that list for which the enumeration has no discriminant.\<close>

definition absent_lexemes :: "string list" where
  "absent_lexemes = [''*='', ''/='', ''|='', ''^='', ''&='', ''!='']"

definition present_lexemes :: "string list" where
  "present_lexemes = filter (\<lambda>l. l \<notin> set absent_lexemes) spec_lexemes"

section \<open>Values and types\<close>

datatype BaseType =
    TypeVoid
  | TypeInt
  | TypeFP
  | TypeChar
  | TypeString
  | TypeFunction
  | TypeMacro
  | TypePointer
  | TypeArray
  | TypeType

text \<open>
  \<open>struct ValueType\<close>: a base and a pointer to the sub-type. Descriptors are never
  written after they are built, so the pointer is modelled by the descriptor it points
  to, \<open>None\<close> for \<open>NULL\<close>.
\<close>

datatype ValueType = ValueType (Base: BaseType) (SubType: "ValueType option")

text \<open>
  \<^verbatim>\<open>#define ISVALUETYPE(t) (((t)->Base == TypeInt) || ((t)->Base == TypeFP) || ((t)->Base == TypeString))\<close>
\<close>

definition ISVALUETYPE :: "ValueType \<Rightarrow> bool" where
  "ISVALUETYPE t = (Base t = TypeInt \<or> Base t = TypeFP \<or> Base t = TypeString)"

section \<open>Structures\<close>

text \<open>
  A pointer into the host's memory or into the arena is its address, a natural number;
  \<open>NULL\<close> is the address 0, as the header defines it.
\<close>

type_synonym ptr = nat

definition NULL :: ptr where
  "NULL = 0"

text \<open>\<open>Str\<close>: a length and a pointer into the source text.\<close>

record Str =
  Len :: c_int
  Str :: ptr

text \<open>\<open>struct ArrayValue\<close>: the number of elements, an \<open>unsigned int\<close>, and the data.\<close>

record ArrayValue =
  Size :: c_uint
  Data :: ptr

text \<open>
  \<open>union s\<close>, the payload of a pointer value: an \<open>unsigned int\<close> index into an array and
  a machine memory pointer, in the same storage. The union has no tag. Its storage holds
  an address, the wider member; on the little-endian host \<open>Offset\<close> is the low 32 bits of
  the storage and \<open>Memory\<close> is all of it, whichever member was stored, and storing
  \<open>Offset\<close> replaces the low 32 bits.
\<close>

datatype s = Storage (storage: ptr)

definition Offset :: "s \<Rightarrow> c_uint" where
  "Offset u = UnsignedInt (of_nat (storage u))"

definition Memory :: "s \<Rightarrow> ptr" where
  "Memory u = storage u"

definition store_Offset :: "s \<Rightarrow> c_uint \<Rightarrow> s" where
  "store_Offset u v = Storage (storage u - storage u mod 2 ^ 32 + unat (bits v))"

definition store_Memory :: "s \<Rightarrow> ptr \<Rightarrow> s" where
  "store_Memory u m = Storage m"

text \<open>\<open>struct PointerValue\<close>: the segment, \<open>NULL\<close> for machine memory access, and the payload.\<close>

record PointerValue =
  Segment :: ptr
  Data :: s

text \<open>
  \<open>struct Value\<close>: the type descriptor (\<open>None\<close> for a null pointer), the address of
  the payload, the must-free flag.
\<close>

record Value =
  Typ :: "ValueType option"
  Val :: ptr
  MustFree :: c_char

record TableEntry =
  Key :: Str
  Val :: ptr

record Table =
  Size :: c_short
  HashTable :: ptr

record LexState =
  Line :: c_int
  Pos :: ptr
  End :: ptr
  FileName :: ptr

text \<open>
  \<^verbatim>\<open>struct TableEntry LocalHashTable[LOCAL_TABLE_SIZE];\<close>
  An array of a declared number of elements is the type of the lists of that length.
\<close>

typedef LocalHashTable_array = "{es :: TableEntry list. length es = nat LOCAL_TABLE_SIZE}"
  by (rule exI [of _ "replicate (nat LOCAL_TABLE_SIZE) undefined"]) simp

record StackFrame =
  ReturnLex :: LexState
  LocalTable :: Table
  LocalHashTable :: LocalHashTable_array

text \<open>\<^verbatim>\<open>extern struct Value Parameter[PARAMETER_MAX];\<close>\<close>

typedef Parameter_array = "{vs :: Value list. length vs = nat PARAMETER_MAX}"
  by (rule exI [of _ "replicate (nat PARAMETER_MAX) undefined"]) simp

text \<open>The module-level variables of the header: the state every operation works on.\<close>

record Globals =
  GlobalTable :: Table
  Parameter :: Parameter_array
  ParameterUsed :: c_int
  ReturnValue :: Value
  VoidType :: ValueType
  FunctionType :: ValueType

section \<open>Pointer arithmetic\<close>

text \<open>
  Modelled from the spec: pointer arithmetic. The evaluator (parse.c) is not among the
  sources. "Pointer arithmetic adds integers to the Offset field, multiplied by the size of
  the pointee (1 for char, machine int size otherwise)." The first argument is the
  descriptor of the pointee; the integer is converted to \<open>unsigned int\<close>, as C converts it
  when it is added to the unsigned field.
\<close>

definition PointeeSize :: "ValueType \<Rightarrow> c_uint" where
  "PointeeSize t =
     (if Base t = TypeChar then UnsignedInt 1 else UnsignedInt (of_nat sizeof_int))"

definition PointerAdd :: "ValueType \<Rightarrow> PointerValue \<Rightarrow> c_int \<Rightarrow> PointerValue" where
  "PointerAdd t p k =
     p\<lparr>PointerValue.Data :=
         store_Offset (PointerValue.Data p)
           (uint_plus (Offset (PointerValue.Data p))
              (uint_times (uint_of_int k) (PointeeSize t)))\<rparr>"

section \<open>The token discriminants\<close>

lemma LexTokens_UNIV: "set LexTokens = UNIV"
proof -
  have "t \<in> set LexTokens" for t
    by (cases t) (simp_all add: LexTokens_def)
  then show ?thesis by blast
qed

lemma LexTokens_distinct: "distinct LexTokens \<and> length LexTokens = 57"
  by (simp add: LexTokens_def)

lemma DiscriminantOf_None_iff:
  "DiscriminantOf l = None \<longleftrightarrow> (\<forall>t. TokenLexeme t \<noteq> Some l)"
  by (simp add: DiscriminantOf_def find_None_iff LexTokens_UNIV)

lemma DiscriminantOf_Some:
  "DiscriminantOf l = Some t \<Longrightarrow> TokenLexeme t = Some l"
  by (auto simp add: DiscriminantOf_def find_Some_iff)

text \<open>
  C1, as stated, fails: \<open>!=\<close> and the compound-assign forms \<open>*=\<close>, \<open>/=\<close>, \<open>|=\<close>,
  \<open>^=\<close>, \<open>&=\<close> are among the listed elements, and no discriminant of the enumeration
  stands for any of them.
\<close>

theorem LexToken_lacks_spec_lexemes:
  "set absent_lexemes \<subseteq> set spec_lexemes \<and>
   map DiscriminantOf absent_lexemes = [None, None, None, None, None, None] \<and>
   (\<forall>t. TokenLexeme t \<noteq> Some ''!='') \<and>
   \<not> (\<forall>l \<in> set spec_lexemes. \<exists>t. TokenLexeme t = Some l)"
proof -
  have none: "map DiscriminantOf absent_lexemes = [None, None, None, None, None, None]"
    by (simp add: DiscriminantOf_def absent_lexemes_def LexTokens_def)
  then have "DiscriminantOf ''!='' = None"
    by (simp add: absent_lexemes_def)
  then have ne: "\<forall>t. TokenLexeme t \<noteq> Some ''!=''"
    by (rule DiscriminantOf_None_iff [THEN iffD1])
  have sub: "set absent_lexemes \<subseteq> set spec_lexemes"
    by (simp add: absent_lexemes_def spec_lexemes_def)
  then have "''!='' \<in> set spec_lexemes"
    by (simp add: absent_lexemes_def)
  with ne have "\<not> (\<forall>l \<in> set spec_lexemes. \<exists>t. TokenLexeme t = Some l)"
    by blast
  with none ne sub show ?thesis
    by blast
qed

text \<open>
  C1, amended. The enumeration has a discriminant, and a different one each time, for
  each punctuator \<open>( ) { } [ ] , ; . ->\<close>, for the compound-assign forms \<open>+=\<close> and \<open>-=\<close>
  (and for no other compound-assign form), for the unary operators \<open>!\<close> and \<open>~\<close>, the
  bitwise operators \<open>| ^ &\<close>, increment and decrement, the comparison operators
  \<open>== < <= > >=\<close> (and none for \<open>!=\<close>), the ten keywords, \<open>#define\<close> and \<open>#include\<close>,
  the end of line, and the operators \<open>+ - * / = && ||\<close>.
\<close>

theorem LexToken_covers_present:
  "present_lexemes =
     [''('', '')'', ''{'', ''}'', ''['', '']'', '','', '';'', ''.'', ''->'',
      ''+='', ''-='', ''!'', ''~'', ''|'', ''^'', ''&'', ''++'', ''--'',
      ''=='', ''<'', ''<='', ''>'', ''>='',
      ''do'', ''else'', ''for'', ''if'', ''while'', ''break'', ''switch'', ''case'',
      ''default'', ''return'', ''#define'', ''#include'', [CHR 0x0A],
      ''+'', ''-'', ''*'', ''/'', ''='', ''&&'', ''||''] \<and>
   map DiscriminantOf present_lexemes =
     map Some
       [TokenOpenBracket, TokenCloseBracket, TokenLeftBrace, TokenRightBrace,
        TokenLeftAngleBracket, TokenRightAngleBracket, TokenComma, TokenSemicolon,
        TokenDot, TokenArrow, TokenAddAssign, TokenSubtractAssign, TokenUnaryNot,
        TokenUnaryExor, TokenArithmeticOr, TokenArithmeticExor, TokenAmpersand,
        TokenIncrement, TokenDecrement, TokenEquality, TokenLessThan, TokenLessEqual,
        TokenGreaterThan, TokenGreaterEqual, TokenDo, TokenElse, TokenFor, TokenIf,
        TokenWhile, TokenBreak, TokenSwitch, TokenCase, TokenDefault, TokenReturn,
        TokenHashDefine, TokenHashInclude, TokenEndOfLine, TokenPlus, TokenMinus,
        TokenAsterisk, TokenSlash, TokenAssign, TokenLogicalAnd, TokenLogicalOr] \<and>
   distinct (map DiscriminantOf present_lexemes) \<and>
   set spec_lexemes = set present_lexemes \<union> set absent_lexemes \<and>
   list_all (\<lambda>l. DiscriminantOf l = None) absent_lexemes"
proof -
  have p: "present_lexemes =
     [''('', '')'', ''{'', ''}'', ''['', '']'', '','', '';'', ''.'', ''->'',
      ''+='', ''-='', ''!'', ''~'', ''|'', ''^'', ''&'', ''++'', ''--'',
      ''=='', ''<'', ''<='', ''>'', ''>='',
      ''do'', ''else'', ''for'', ''if'', ''while'', ''break'', ''switch'', ''case'',
      ''default'', ''return'', ''#define'', ''#include'', [CHR 0x0A],
      ''+'', ''-'', ''*'', ''/'', ''='', ''&&'', ''||'']"
    by (simp add: present_lexemes_def absent_lexemes_def spec_lexemes_def)
  have m: "map DiscriminantOf present_lexemes =
     map Some
       [TokenOpenBracket, TokenCloseBracket, TokenLeftBrace, TokenRightBrace,
        TokenLeftAngleBracket, TokenRightAngleBracket, TokenComma, TokenSemicolon,
        TokenDot, TokenArrow, TokenAddAssign, TokenSubtractAssign, TokenUnaryNot,
        TokenUnaryExor, TokenArithmeticOr, TokenArithmeticExor, TokenAmpersand,
        TokenIncrement, TokenDecrement, TokenEquality, TokenLessThan, TokenLessEqual,
        TokenGreaterThan, TokenGreaterEqual, TokenDo, TokenElse, TokenFor, TokenIf,
        TokenWhile, TokenBreak, TokenSwitch, TokenCase, TokenDefault, TokenReturn,
        TokenHashDefine, TokenHashInclude, TokenEndOfLine, TokenPlus, TokenMinus,
        TokenAsterisk, TokenSlash, TokenAssign, TokenLogicalAnd, TokenLogicalOr]"
    unfolding p by (simp add: DiscriminantOf_def LexTokens_def)
  have d: "distinct (map DiscriminantOf present_lexemes)"
    unfolding m by simp
  have u: "set spec_lexemes = set present_lexemes \<union> set absent_lexemes"
    by (auto simp add: present_lexemes_def absent_lexemes_def spec_lexemes_def)
  have a: "list_all (\<lambda>l. DiscriminantOf l = None) absent_lexemes"
    by (simp add: DiscriminantOf_def absent_lexemes_def LexTokens_def)
  from p m d u a show ?thesis
    by (simp only: simp_thms)
qed

section \<open>The value-type predicate\<close>

lemma BaseType_UNIV:
  "(UNIV :: BaseType set) =
     {TypeVoid, TypeInt, TypeFP, TypeChar, TypeString, TypeFunction, TypeMacro,
      TypePointer, TypeArray, TypeType}"
proof -
  have "b \<in> {TypeVoid, TypeInt, TypeFP, TypeChar, TypeString, TypeFunction, TypeMacro,
      TypePointer, TypeArray, TypeType}" for b
    by (cases b) simp_all
  then show ?thesis by blast
qed

text \<open>
  C2. \<open>ISVALUETYPE(t)\<close> holds exactly when the base of \<open>t\<close> is \<open>TypeInt\<close>, \<open>TypeFP\<close> or
  \<open>TypeString\<close>; equivalently, exactly when the base is none of the seven others
  (void, char, function, macro, pointer, array, type).
\<close>

theorem ISVALUETYPE_iff:
  "(ISVALUETYPE t \<longleftrightarrow> Base t \<in> {TypeInt, TypeFP, TypeString}) \<and>
   (ISVALUETYPE t \<longleftrightarrow>
      Base t \<notin> {TypeVoid, TypeChar, TypeFunction, TypeMacro, TypePointer, TypeArray, TypeType})"
  by (cases "Base t") (simp_all add: ISVALUETYPE_def)

section \<open>The largest power of ten of an int\<close>

lemma power_of_ten_fits:
  assumes "(10::int) ^ k \<le> INT_MAX"
  shows "k \<le> 9"
proof (rule ccontr)
  assume "\<not> k \<le> 9"
  then have "10 \<le> k" by simp
  then have "(10::int) ^ 10 \<le> 10 ^ k"
    by (intro power_increasing) simp_all
  with assms show False by (simp add: INT_MAX_def)
qed

text \<open>
  C4. \<open>LARGE_INT_POWER_OF_TEN\<close> is \<open>10^9 = 1000000000\<close>; it fits the 32-bit \<open>int\<close>
  (\<open>10^9 \<le> INT_MAX\<close>, and the value read back from an \<open>int\<close> is the same), the next
  power of ten does not (\<open>10^10 > INT_MAX\<close>, and ten times the constant wraps in an
  \<open>int\<close>), and so it is the largest power of ten that is at most \<open>INT_MAX\<close>.
\<close>

theorem LARGE_INT_POWER_OF_TEN_largest:
  "LARGE_INT_POWER_OF_TEN = 10 ^ 9 \<and> LARGE_INT_POWER_OF_TEN = 1000000000 \<and>
   (10::int) ^ 9 \<le> INT_MAX \<and> INT_MAX < 10 ^ 10 \<and>
   sint (word_of_int LARGE_INT_POWER_OF_TEN :: c_int) = LARGE_INT_POWER_OF_TEN \<and>
   sint (word_of_int (10 * LARGE_INT_POWER_OF_TEN) :: c_int) \<noteq> 10 * LARGE_INT_POWER_OF_TEN \<and>
   Max {p. (\<exists>k. p = 10 ^ k) \<and> p \<le> INT_MAX} = LARGE_INT_POWER_OF_TEN"
proof -
  let ?S = "{p::int. (\<exists>k. p = 10 ^ k) \<and> p \<le> INT_MAX}"
  have sub: "?S \<subseteq> (\<lambda>k. 10 ^ k) ` {..9::nat}"
    using power_of_ten_fits by auto
  have fin: "finite ?S"
    by (rule finite_subset [OF sub]) simp
  have mem: "LARGE_INT_POWER_OF_TEN \<in> ?S"
  proof -
    have "LARGE_INT_POWER_OF_TEN = 10 ^ 9"
      by (simp add: LARGE_INT_POWER_OF_TEN_def)
    moreover have "LARGE_INT_POWER_OF_TEN \<le> INT_MAX"
      by (simp add: LARGE_INT_POWER_OF_TEN_def INT_MAX_def)
    ultimately show ?thesis by blast
  qed
  have upper: "p \<le> LARGE_INT_POWER_OF_TEN" if "p \<in> ?S" for p
  proof -
    from that obtain k where p: "p = 10 ^ k" and "(10::int) ^ k \<le> INT_MAX" by auto
    then have "k \<le> 9" using power_of_ten_fits by simp
    then have "(10::int) ^ k \<le> 10 ^ 9"
      by (intro power_increasing) simp_all
    with p show ?thesis by (simp add: LARGE_INT_POWER_OF_TEN_def)
  qed
  have "Max ?S = LARGE_INT_POWER_OF_TEN"
    by (rule Max_eqI [OF fin upper mem])
  moreover have "sint (word_of_int LARGE_INT_POWER_OF_TEN :: c_int) = LARGE_INT_POWER_OF_TEN"
    by (simp add: LARGE_INT_POWER_OF_TEN_def)
  moreover have
    "sint (word_of_int (10 * LARGE_INT_POWER_OF_TEN) :: c_int) \<noteq> 10 * LARGE_INT_POWER_OF_TEN"
    by (simp add: LARGE_INT_POWER_OF_TEN_def)
  ultimately show ?thesis
    by (simp add: LARGE_INT_POWER_OF_TEN_def INT_MAX_def)
qed

section \<open>Rounding a size up to the word\<close>

text \<open>
  With \<open>sizeof(int) = 4\<close> the mask \<open>~(ARCH_ALIGN_WORDSIZE-1)\<close> clears the two low bits,
  which is a division by four followed by a multiplication by four.
\<close>

lemma and_not_3_eq:
  fixes w :: "'a::len word"
  shows "w AND NOT 3 = push_bit 2 (drop_bit 2 w)"
proof -
  have "(3 :: 'a word) = mask 2"
    by (simp add: mask_eq_exp_minus_1)
  then have "w AND NOT 3 = w AND NOT (mask 2)"
    by simp
  also have "\<dots> = push_bit 2 (drop_bit 2 w)"
  proof (rule bit_eqI)
    fix i
    have "Suc (Suc (i - 2)) = i" if "\<not> i < 2"
      using that by simp
    then show "bit (w AND NOT (mask 2)) i = bit (push_bit 2 (drop_bit 2 w)) i"
      by (auto simp add: bit_simps dest: bit_imp_le_length)
  qed
  finally show ?thesis .
qed

lemma unat_and_not_3:
  fixes w :: "'a::len word"
  shows "unat (w AND NOT 3) = unat w div 4 * 4"
proof -
  have le: "unat w div 4 * 4 \<le> unat w"
    by simp
  have "unat w < 2 ^ LENGTH('a)"
    by (rule unsigned_less)
  with le have lt: "unat w div 4 * 4 < 2 ^ LENGTH('a)"
    by (rule le_less_trans)
  have "unat (push_bit 2 (drop_bit 2 w)) = take_bit LENGTH('a) (push_bit 2 (drop_bit 2 (unat w)))"
    by (simp add: unsigned_push_bit_eq unat_drop_bit_eq)
  also have "\<dots> = take_bit LENGTH('a) (unat w div 4 * 4)"
    by (simp add: push_bit_eq_mult drop_bit_eq_div)
  also have "\<dots> = unat w div 4 * 4"
    using lt by (simp add: take_bit_nat_eq_self)
  finally have "unat (push_bit 2 (drop_bit 2 w)) = unat w div 4 * 4" .
  then show ?thesis
    by (simp only: and_not_3_eq)
qed

lemma unat_MEM_ALIGN:
  fixes n :: "'a::len word"
  assumes "unat n + sizeof_int - 1 < 2 ^ LENGTH('a)"
  shows "unat (MEM_ALIGN n) = (unat n + 3) div 4 * 4"
proof -
  from assms have small: "unat n + 3 < 2 ^ LENGTH('a)"
    by (simp add: sizeof_int_def)
  have "unat (3 :: 'a word) = 3 mod 2 ^ LENGTH('a)"
    using unat_of_nat [of 3, where 'a = 'a] by simp
  with small have three: "unat (3 :: 'a word) = 3"
    by simp
  have "unat (n + 3) = unat n + 3"
    using small three unat_add_lem [of n 3] by simp
  moreover have "MEM_ALIGN n = (n + 3) AND NOT 3"
    by (simp add: MEM_ALIGN_def ARCH_ALIGN_WORDSIZE_def sizeof_int_def add.commute)
  ultimately show ?thesis
    by (simp only: unat_and_not_3)
qed

text \<open>
  C3. For a size \<open>n\<close> such that \<open>n + ARCH_ALIGN_WORDSIZE - 1\<close> does not overflow the
  unsigned type of the arithmetic, \<open>MEM_ALIGN(n)\<close> is a multiple of the word size
  \<open>sizeof(int)\<close>, is at least \<open>n\<close>, is at most every multiple of the word size that
  is at least \<open>n\<close>, and \<open>MEM_ALIGN(MEM_ALIGN(n)) = MEM_ALIGN(n)\<close>; the word size is the
  power of two \<open>2^2\<close>.
\<close>

theorem MEM_ALIGN_least_multiple:
  fixes n :: "'a::len word"
  assumes "unat n + sizeof_int - 1 < 2 ^ LENGTH('a)"
  shows "sizeof_int dvd unat (MEM_ALIGN n) \<and>
         unat n \<le> unat (MEM_ALIGN n) \<and>
         (\<forall>m. sizeof_int dvd m \<and> unat n \<le> m \<longrightarrow> unat (MEM_ALIGN n) \<le> m) \<and>
         MEM_ALIGN (MEM_ALIGN n) = MEM_ALIGN n \<and>
         sizeof_int = 2 ^ 2"
proof -
  let ?r = "unat (MEM_ALIGN n)"
  have r: "?r = (unat n + 3) div 4 * 4"
    using assms by (rule unat_MEM_ALIGN)
  have four: "sizeof_int = 4"
    by (simp add: sizeof_int_def)
  have aligned: "4 dvd ?r"
    by (simp add: r)
  have above: "unat n \<le> ?r"
    unfolding r by presburger
  have least: "?r \<le> m" if "4 dvd m" and "unat n \<le> m" for m
    using that unfolding r by presburger
  from assms have small: "unat n + 3 < 2 ^ LENGTH('a)"
    by (simp add: four)
  have "2 \<le> LENGTH('a)"
  proof (rule ccontr)
    assume "\<not> 2 \<le> LENGTH('a)"
    then have "LENGTH('a) \<le> 1" by simp
    then have "(2::nat) ^ LENGTH('a) \<le> 2 ^ 1"
      by (intro power_increasing) simp_all
    with small show False by simp
  qed
  then obtain k where "LENGTH('a) = 2 + k"
    by (auto simp add: le_iff_add)
  then have "(2::nat) ^ LENGTH('a) = 4 * 2 ^ k"
    by (simp only: power_add) simp
  then have "4 dvd (2::nat) ^ LENGTH('a)"
    by simp
  moreover have "?r < 2 ^ LENGTH('a)"
    by (rule unsigned_less)
  ultimately have "?r + 3 < 2 ^ LENGTH('a)"
    using aligned by presburger
  then have "unat (MEM_ALIGN n) + sizeof_int - 1 < 2 ^ LENGTH('a)"
    by (simp add: four)
  then have "unat (MEM_ALIGN (MEM_ALIGN n)) = (?r + 3) div 4 * 4"
    by (rule unat_MEM_ALIGN)
  also have "\<dots> = ?r"
    using aligned by presburger
  finally have idem: "MEM_ALIGN (MEM_ALIGN n) = MEM_ALIGN n"
    by (simp only: word_unat_eq_iff)
  from aligned above least idem show ?thesis
    by (simp add: four)
qed

theorem MEM_ALIGN_least_multiple_witness:
  "unat (5 :: 32 word) + sizeof_int - 1 < 2 ^ LENGTH(32) \<and>
   MEM_ALIGN (5 :: 32 word) = 8 \<and>
   sizeof_int dvd unat (MEM_ALIGN (5 :: 32 word)) \<and>
   unat (5 :: 32 word) \<le> unat (MEM_ALIGN (5 :: 32 word)) \<and>
   unat (MEM_ALIGN (5 :: 32 word)) \<le> 8 \<and>
   MEM_ALIGN (MEM_ALIGN (5 :: 32 word)) = MEM_ALIGN 5"
proof -
  have h: "unat (5 :: 32 word) + sizeof_int - 1 < 2 ^ LENGTH(32)"
    by (simp add: sizeof_int_def)
  have v: "MEM_ALIGN (5 :: 32 word) = 8"
    by (simp add: MEM_ALIGN_def ARCH_ALIGN_WORDSIZE_def sizeof_int_def)
  from MEM_ALIGN_least_multiple [OF h]
  have "sizeof_int dvd unat (MEM_ALIGN (5 :: 32 word)) \<and>
        unat (5 :: 32 word) \<le> unat (MEM_ALIGN (5 :: 32 word)) \<and>
        MEM_ALIGN (MEM_ALIGN (5 :: 32 word)) = MEM_ALIGN 5"
    by blast
  with h v show ?thesis
    by (simp add: sizeof_int_def)
qed

section \<open>Type descriptors\<close>

lemma BaseType_distinct:
  "distinct [TypeVoid, TypeInt, TypeFP, TypeChar, TypeString, TypeFunction, TypeMacro,
     TypePointer, TypeArray, TypeType]"
  by simp

lemma BaseType_card: "card (UNIV :: BaseType set) = 10"
proof -
  let ?bases = "[TypeVoid, TypeInt, TypeFP, TypeChar, TypeString, TypeFunction, TypeMacro,
        TypePointer, TypeArray, TypeType]"
  have "(UNIV :: BaseType set) = set ?bases"
    by (simp add: BaseType_UNIV)
  then have "card (UNIV :: BaseType set) = card (set ?bases)"
    by (rule arg_cong)
  also have "\<dots> = length ?bases"
    by (rule distinct_card [OF BaseType_distinct])
  finally show ?thesis by simp
qed



section \<open>Offsets and sizes\<close>

lemma uint_value_range: "0 \<le> uint_value u \<and> uint_value u \<le> UINT_MAX"
proof -
  have "uint (bits u) < 2 ^ LENGTH(32)"
    by (rule uint_lt2p)
  then show ?thesis
    by (simp add: uint_value_def UINT_MAX_def)
qed

lemma Offset_store_Offset: "Offset (store_Offset u v) = v"
proof -
  let ?x = "storage u"
  have "(2::nat) ^ 32 dvd ?x - ?x mod 2 ^ 32"
    by (rule dvd_minus_mod)
  then have "(2::nat) ^ LENGTH(32) dvd ?x - ?x mod 2 ^ 32"
    by simp
  then have zero: "(word_of_nat (?x - ?x mod 2 ^ 32) :: 32 word) = 0"
    by (simp only: word_of_nat_eq_0_iff)
  have "(word_of_nat (?x - ?x mod 2 ^ 32 + unat (bits v)) :: 32 word) =
      word_of_nat (?x - ?x mod 2 ^ 32) + word_of_nat (unat (bits v))"
    by (rule of_nat_add)
  also have "\<dots> = bits v"
    by (simp only: zero) simp
  finally show ?thesis
    by (simp only: Offset_def store_Offset_def s.sel c_uint.collapse)
qed

lemma uint_plus_times:
  fixes a k z :: "32 word"
  shows "uint (a + k * z) = (uint a + sint k * uint z) mod 2 ^ 32"
proof -
  have "a + k * z = word_of_int (uint a + sint k * uint z)"
    by simp
  then have "uint (a + k * z) = uint (word_of_int (uint a + sint k * uint z) :: 32 word)"
    by (rule arg_cong)
  also have "\<dots> = (uint a + sint k * uint z) mod 2 ^ LENGTH(32)"
    by (rule uint_word_of_int)
  finally show ?thesis
    by simp
qed

lemma Offset_PointerAdd:
  "uint_value (Offset (PointerValue.Data (PointerAdd t p k))) =
     (uint_value (Offset (PointerValue.Data p)) + int_value k * uint_value (PointeeSize t))
       mod 2 ^ 32"
  by (simp add: PointerAdd_def Offset_store_Offset uint_plus_def uint_times_def
      uint_of_int_def uint_value_def int_value_def uint_plus_times)

lemma PointeeSize_value:
  "uint_value (PointeeSize t) = (if Base t = TypeChar then 1 else 4)"
  by (simp add: PointeeSize_def uint_value_def sizeof_int_def)




section \<open>Capacities\<close>

text \<open>
  C7. \<open>HEAP_SIZE\<close> is 2048 bytes (2 KiB), \<open>GLOBAL_TABLE_SIZE\<close> is 397 and
  \<open>LOCAL_TABLE_SIZE\<close> is 11, and the \<open>LocalHashTable\<close> inside every stack frame has
  exactly \<open>LOCAL_TABLE_SIZE\<close> table entries.
\<close>

theorem default_sizes:
  fixes f :: StackFrame
  shows
  "HEAP_SIZE = 2048 \<and> HEAP_SIZE = 2 * 1024 \<and> GLOBAL_TABLE_SIZE = 397 \<and>
   LOCAL_TABLE_SIZE = 11 \<and>
   int (length (Rep_LocalHashTable_array (LocalHashTable f))) = LOCAL_TABLE_SIZE \<and>
   length (Rep_LocalHashTable_array (LocalHashTable f)) = 11"
proof -
  have "Rep_LocalHashTable_array (LocalHashTable f)
      \<in> {es. length es = nat LOCAL_TABLE_SIZE}"
    by (rule Rep_LocalHashTable_array)
  then have "length (Rep_LocalHashTable_array (LocalHashTable f)) = nat LOCAL_TABLE_SIZE"
    by simp
  then show ?thesis
    by (simp add: HEAP_SIZE_def GLOBAL_TABLE_SIZE_def LOCAL_TABLE_SIZE_def)
qed

section \<open>Further properties of the header\<close>

text \<open>
  The bound on \<open>n\<close> in the rounding is needed: on a 32-bit \<open>size_t\<close> the sum
  \<open>n + ARCH_ALIGN_WORDSIZE - 1\<close> wraps for the three largest sizes, and \<open>MEM_ALIGN\<close>
  of \<open>2^32 - 3\<close> is 0, which is below the size.
\<close>

theorem MEM_ALIGN_wraps:
  "MEM_ALIGN (4294967293 :: 32 word) = 0 \<and>
   \<not> unat (4294967293 :: 32 word) + sizeof_int - 1 < 2 ^ LENGTH(32) \<and>
   \<not> unat (4294967293 :: 32 word) \<le> unat (MEM_ALIGN (4294967293 :: 32 word))"
  by (simp add: MEM_ALIGN_def ARCH_ALIGN_WORDSIZE_def sizeof_int_def)

text \<open>
  \<open>enum LexToken\<close> has 57 enumerators: the list of them has no repetition and holds
  every discriminant, from \<open>TokenNone\<close>, whose value is 0, to \<open>TokenEndOfLine\<close>, whose
  value is 56.
\<close>

theorem LexToken_enumerators:
  "set LexTokens = UNIV \<and> distinct LexTokens \<and> length LexTokens = 57 \<and>
   LexTokens ! 0 = TokenNone \<and> LexTokens ! 56 = TokenEndOfLine"
proof -
  have "LexTokens ! 0 = TokenNone \<and> LexTokens ! 56 = TokenEndOfLine"
    by (simp add: LexTokens_def)
  with LexTokens_UNIV LexTokens_distinct show ?thesis
    by blast
qed

text \<open>
  \<open>FUNCTION_STORE_MAX\<close> is 200, \<open>STACK_MAX\<close> is 10 and \<open>PARAMETER_MAX\<close> is 10. The
  shared \<open>Parameter\<close> array has exactly \<open>PARAMETER_MAX\<close> slots: the lists of values that
  stand in its leading slots, in some state of the module-level variables, are exactly the
  lists of at most 10 values.
\<close>

theorem Parameter_capacity:
  fixes g :: Globals and args :: "Value list"
  shows
  "FUNCTION_STORE_MAX = 200 \<and> STACK_MAX = 10 \<and> PARAMETER_MAX = 10 \<and>
   int (length (Rep_Parameter_array (Parameter g))) = PARAMETER_MAX \<and>
   ((\<exists>(h :: Globals) n. args = take n (Rep_Parameter_array (Parameter h)))
      \<longleftrightarrow> int (length args) \<le> PARAMETER_MAX)"
proof -
  have len: "length (Rep_Parameter_array (Parameter h)) = 10" for h :: Globals
    using Rep_Parameter_array [of "Parameter h"] by (simp add: PARAMETER_MAX_def)
  have fits: "\<exists>(h :: Globals) n. args = take n (Rep_Parameter_array (Parameter h))"
    if short: "length args \<le> 10"
  proof -
    let ?slots = "args @ replicate (10 - length args) undefined"
    let ?h = "(undefined :: Globals)\<lparr>Parameter := Abs_Parameter_array ?slots\<rparr>"
    from short have "?slots \<in> {vs. length vs = nat PARAMETER_MAX}"
      by (simp add: PARAMETER_MAX_def)
    then have "Rep_Parameter_array (Abs_Parameter_array ?slots) = ?slots"
      by (rule Abs_Parameter_array_inverse)
    then have "args = take (length args) (Rep_Parameter_array (Parameter ?h))"
      by simp
    then show ?thesis
      by blast
  qed
  have short: "length args \<le> 10"
    if "\<exists>(h :: Globals) n. args = take n (Rep_Parameter_array (Parameter h))"
  proof -
    from that obtain h :: Globals and n
      where "args = take n (Rep_Parameter_array (Parameter h))"
      by blast
    then have "length args = min (length (Rep_Parameter_array (Parameter h))) n"
      by simp
    with len [of h] show ?thesis
      by simp
  qed
  from fits short
  have "(\<exists>(h :: Globals) n. args = take n (Rep_Parameter_array (Parameter h)))
      \<longleftrightarrow> length args \<le> 10"
    by blast
  with len [of g] show ?thesis
    by (simp add: FUNCTION_STORE_MAX_def STACK_MAX_def PARAMETER_MAX_def)
qed

end
